theory Spec2Isabelle
  imports Complex_Main "HOL-Library.Sublist"
begin

section \<open>The sentiment view of \<^verbatim>\<open>src/app/page.tsx\<close>\<close>

text \<open>
  The development embeds the \<^verbatim>\<open>Home\<close> component of
  \<^verbatim>\<open>src/frontend/wsbsentiment-frontend/src/app/page.tsx\<close>: its component state, the
  asynchronous routine \<^verbatim>\<open>fetchSentiment\<close>, and the comment list it renders.
\<close>

subsection \<open>Numbers\<close>

text \<open>
  A TypeScript \<^verbatim>\<open>number\<close> is an IEEE-754 binary64 value. The component only compares
  numbers, and comparison of binary64 values is exact, so a finite number is kept as the real
  it denotes; the two infinities and NaN are values of their own.
\<close>

datatype number = NaN | NegInfinity | Finite real | PosInfinity

text \<open>The operator \<^verbatim>\<open><\<close>: false as soon as an operand is NaN.\<close>

fun num_less :: "number \<Rightarrow> number \<Rightarrow> bool" where
  "num_less NaN _ = False"
| "num_less _ NaN = False"
| "num_less PosInfinity _ = False"
| "num_less _ NegInfinity = False"
| "num_less NegInfinity _ = True"
| "num_less (Finite a) PosInfinity = True"
| "num_less (Finite a) (Finite b) = (a < b)"

text \<open>The operator \<^verbatim>\<open>></\<close> is \<^verbatim>\<open><\<close> with the operands exchanged.\<close>

definition num_greater :: "number \<Rightarrow> number \<Rightarrow> bool" where
  "num_greater a b = num_less b a"

text \<open>Unary minus.\<close>

fun num_neg :: "number \<Rightarrow> number" where
  "num_neg NaN = NaN"
| "num_neg NegInfinity = PosInfinity"
| "num_neg (Finite a) = Finite (- a)"
| "num_neg PosInfinity = NegInfinity"

text \<open>
  The literal \<^verbatim>\<open>0.1\<close> of the source denotes the binary64 value nearest to one tenth,
  which is \<open>3602879701896397 / 2 ^ 55\<close>.
\<close>

definition lit_0_1 :: number where
  "lit_0_1 = Finite (3602879701896397 / 36028797018963968)"

subsection \<open>Classification of a comment's sentiment\<close>

text \<open>
  Lines 162 to 167: the conditional expression bound to \<^verbatim>\<open>sentimentClass\<close>. The three
  style strings are the three display buckets; they are named after the buckets they stand for.
\<close>

definition Positive :: string where
  "Positive = ''bg-green-900 border-green-600''"

definition Negative :: string where
  "Negative = ''bg-red-900 border-red-600''"

definition Neutral :: string where
  "Neutral = ''bg-gray-800 border-gray-700''"

definition sentimentClass :: "number \<Rightarrow> string" where
  "sentimentClass sentiment =
     (if num_greater sentiment lit_0_1 then ''bg-green-900 border-green-600''
      else if num_less sentiment (num_neg lit_0_1) then ''bg-red-900 border-red-600''
      else ''bg-gray-800 border-gray-700'')"

subsection \<open>Strings\<close>

text \<open>
  A string of the program is a \<^typ>\<open>string\<close>: the bytes of its UTF-8 form. A JavaScript
  string may hold a surrogate without its partner; such a code unit is kept as the three
  bytes of the generalised UTF-8 form, a lead byte \<open>0xED\<close> followed by a byte from
  \<open>0xA0\<close> to \<open>0xBF\<close> and one more. The component compares strings with ASCII text
  only (a substring search, a regular expression over ASCII letters, and equality with a
  literal); a byte of a character beyond ASCII is never an ASCII byte, so these comparisons
  give the same answer on the bytes as on the code units.
\<close>

text \<open>Whether \<open>needle\<close> occurs at the very start of \<open>s\<close>.\<close>

fun starts_with :: "string \<Rightarrow> string \<Rightarrow> bool" where
  "starts_with s [] = True"
| "starts_with [] (n # ns) = False"
| "starts_with (c # cs) (n # ns) = (c = n \<and> starts_with cs ns)"

text \<open>
  \<^verbatim>\<open>s.includes(needle)\<close>: the search tries every start index from 0 up to the length
  of \<open>s\<close>.
\<close>

fun includes_str :: "string \<Rightarrow> string \<Rightarrow> bool" where
  "includes_str [] needle = starts_with [] needle"
| "includes_str (c # cs) needle = (starts_with (c # cs) needle \<or> includes_str cs needle)"

text \<open>
  The regular expression \<^verbatim>\<open>/mod|bot/i\<close>. Under the flag \<^verbatim>\<open>i\<close> (without
  \<^verbatim>\<open>u\<close>) a pattern character and an input character match when their canonical
  forms are equal; the canonical form of an ASCII letter is its upper-case letter, and a
  character beyond ASCII is never mapped onto an ASCII one, so here it is left as it is.
\<close>

definition Canonicalize :: "char \<Rightarrow> char" where
  "Canonicalize c =
     (let n = (of_char c :: nat) in if 97 \<le> n \<and> n \<le> 122 then char_of (n - 32) else c)"

text \<open>A literal pattern matched at the start of the input.\<close>

fun match_literal :: "string \<Rightarrow> string \<Rightarrow> bool" where
  "match_literal [] s = True"
| "match_literal (p # ps) [] = False"
| "match_literal (p # ps) (c # cs) =
     (Canonicalize p = Canonicalize c \<and> match_literal ps cs)"

text \<open>The alternatives of the pattern, tried from left to right at one start index.\<close>

fun match_here :: "string list \<Rightarrow> string \<Rightarrow> bool" where
  "match_here [] s = False"
| "match_here (a # as) s = (match_literal a s \<or> match_here as s)"

text \<open>
  \<^verbatim>\<open>regex.test(s)\<close> for a pattern without the flags \<^verbatim>\<open>g\<close> and \<^verbatim>\<open>y\<close>:
  the match is tried at every start index from 0 on.
\<close>

fun regex_test :: "string list \<Rightarrow> string \<Rightarrow> bool" where
  "regex_test alts [] = match_here alts []"
| "regex_test alts (c # cs) = (match_here alts (c # cs) \<or> regex_test alts cs)"

text \<open>
  \<^verbatim>\<open>encodeURIComponent(s)\<close> keeps the letters, the digits and the marks
  \<^verbatim>\<open>- _ . ! ~ * ' ( )\<close>, and writes every other byte of the UTF-8 form as a percent
  sign and two upper-case hexadecimal digits. It throws a \<^verbatim>\<open>URIError\<close> when the
  string holds a surrogate without its partner; the message of that error is the engine's
  (see \<open>host\<close> below) and is a parameter here.
\<close>

definition unreserved :: "char \<Rightarrow> bool" where
  "unreserved c =
     (c \<in> set ''ABCDEFGHIJKLMNOPQRSTUVWXYZabcdefghijklmnopqrstuvwxyz0123456789-_.!~*()'' \<or>
      c = CHR 0x27)"

definition hex_digit :: "nat \<Rightarrow> char" where
  "hex_digit n = ''0123456789ABCDEF'' ! (n mod 16)"

definition percent_encode :: "char \<Rightarrow> string" where
  "percent_encode c =
     [CHR ''%'', hex_digit ((of_char c :: nat) div 16), hex_digit ((of_char c :: nat) mod 16)]"

fun lone_surrogate :: "string \<Rightarrow> bool" where
  "lone_surrogate (a # b # cs) =
     (((of_char a :: nat) = 0xED \<and> 0xA0 \<le> (of_char b :: nat) \<and> (of_char b :: nat) \<le> 0xBF) \<or>
      lone_surrogate (b # cs))"
| "lone_surrogate [a] = False"
| "lone_surrogate [] = False"

definition escape_bytes :: "string \<Rightarrow> string" where
  "escape_bytes s = concat (map (\<lambda>c. if unreserved c then [c] else percent_encode c) s)"

subsection \<open>The data of an analysed post\<close>

text \<open>
  The types \<^verbatim>\<open>Comment\<close> and \<^verbatim>\<open>PostData\<close> of lines 10 to 29. The field
  \<^verbatim>\<open>id\<close> is called \<open>comment_id\<close> and \<open>post_id\<close> here, and the fields of
  \<^verbatim>\<open>PostData\<close> that share a name with a field of \<^verbatim>\<open>Comment\<close> or of the
  component state carry the prefix \<open>post_\<close>.
\<close>

record Comment =
  comment_id :: string
  body :: string
  sentiment :: number
  score :: number
  author :: string
  created_utc :: number

record PostData =
  post_id :: string
  title :: string
  selftext :: string
  post_sentiment :: number
  post_score :: number
  post_url :: string
  num_comments :: number
  post_created_utc :: number
  top_comments :: "Comment list"

subsection \<open>The rendered comment list\<close>

text \<open>
  Lines 157 to 183 map every comment of \<^verbatim>\<open>data.top_comments\<close> either to
  \<^verbatim>\<open>null\<close> or to a list item. An item is kept with its key, its class attribute and
  the comment whose fields it prints.
\<close>

record list_item =
  item_key :: string
  item_className :: string
  item_comment :: Comment

definition render_comment :: "Comment \<Rightarrow> list_item option" where
  "render_comment comment =
     (if regex_test [''mod'', ''bot''] (author comment) then None
      else if body comment = ''[deleted]'' \<or> body comment = ''[removed]'' then None
      else Some \<lparr>item_key = comment_id comment,
                 item_className =
                   ''p-4 rounded border '' @ sentimentClass (sentiment comment) @ '' text-gray-300'',
                 item_comment = comment\<rparr>)"

definition render_top_comments :: "Comment list \<Rightarrow> list_item option list" where
  "render_top_comments comments = map render_comment comments"

text \<open>A \<^verbatim>\<open>null\<close> child renders nothing: the list shows the other children, in order.\<close>

fun rendered_children :: "'a option list \<Rightarrow> 'a list" where
  "rendered_children [] = []"
| "rendered_children (None # xs) = rendered_children xs"
| "rendered_children (Some x # xs) = x # rendered_children xs"

text \<open>The comments that reach the screen: the filter of the comment list.\<close>

definition filter_comments :: "Comment list \<Rightarrow> Comment list" where
  "filter_comments comments =
     map item_comment (rendered_children (render_top_comments comments))"

text \<open>
  The wording of the specification for the noise filter. A string contains a word without
  regard to case when the word occurs in its lower-case form; a comment is noise when its
  author contains the word mod or the word bot in that sense, or its body is one of the two
  placeholders.
\<close>

definition spec_lower :: "char \<Rightarrow> char" where
  "spec_lower c =
     (let n = (of_char c :: nat) in if 65 \<le> n \<and> n \<le> 90 then char_of (n + 32) else c)"

definition spec_contains_ci :: "string \<Rightarrow> string \<Rightarrow> bool" where
  "spec_contains_ci s word = sublist word (map spec_lower s)"

definition spec_dropped :: "Comment \<Rightarrow> bool" where
  "spec_dropped c =
     (spec_contains_ci (author c) ''mod'' \<or> spec_contains_ci (author c) ''bot'' \<or>
      body c = ''[deleted]'' \<or> body c = ''[removed]'')"

subsection \<open>Thrown values and response bodies\<close>

text \<open>
  The \<^verbatim>\<open>catch\<close> clause of lines 62 to 67 looks at a thrown value in two ways only:
  whether it is an instance of \<^verbatim>\<open>Error\<close>, whose message it then reads, and
  otherwise what \<^verbatim>\<open>String(e)\<close> yields. For a value that is no
  \<^verbatim>\<open>Error\<close> the conversion is kept with the value; it is \<open>None\<close> when the
  conversion throws itself.
\<close>

datatype thrown = Error string | NonError "string option"

text \<open>
  The body of an error response is read with \<^verbatim>\<open>res.json()\<close> and is of type
  \<^verbatim>\<open>any\<close>: any JSON value. The members of an object are kept in the order of the
  text.
\<close>

datatype json =
    JNull
  | JBool bool
  | JNumber number
  | JString string
  | JArray "json list"
  | JObject "(string \<times> json) list"

text \<open>
  Some things are fixed by the JavaScript engine and not by the program: the decimal text of
  a number, and the messages of the errors the engine raises: the \<^verbatim>\<open>TypeError\<close> for
  reading a property of \<^verbatim>\<open>null\<close>, the \<^verbatim>\<open>TypeError\<close> for an object that has no
  primitive value, and the \<^verbatim>\<open>URIError\<close> of \<^verbatim>\<open>encodeURIComponent\<close>. The
  functions below take them as a parameter.
\<close>

record host =
  number_to_string :: "number \<Rightarrow> string"
  null_property_message :: string
  to_primitive_message :: string
  uri_error_message :: string

text \<open>
  An engine for the examples. Its messages are those of V8; the only number the examples
  print is 50.
\<close>

definition example_host :: host where
  "example_host =
     \<lparr>number_to_string = (\<lambda>n. ''50''),
      null_property_message = ''Cannot read properties of null (reading 'detail')'',
      to_primitive_message = ''Cannot convert object to primitive value'',
      uri_error_message = ''URI malformed''\<rparr>"

definition encodeURIComponent :: "host \<Rightarrow> string \<Rightarrow> thrown + string" where
  "encodeURIComponent h s =
     (if lone_surrogate s then Inl (Error (uri_error_message h)) else Inr (escape_bytes s))"

text \<open>
  \<^verbatim>\<open>err.detail\<close>: reading the property of \<^verbatim>\<open>null\<close> throws; an object gives
  its member of that name (the last one, when the text repeats the name) or
  \<^verbatim>\<open>undefined\<close>, which is \<open>None\<close>; every other JSON value has no such property.
\<close>

definition member_named :: "string \<Rightarrow> (string \<times> json) list \<Rightarrow> json option" where
  "member_named name members = map_of (rev members) name"

fun get_detail :: "host \<Rightarrow> json \<Rightarrow> thrown + json option" where
  "get_detail h JNull = Inl (Error (null_property_message h))"
| "get_detail h (JObject members) = Inr (member_named ''detail'' members)"
| "get_detail h (JBool b) = Inr None"
| "get_detail h (JNumber n) = Inr None"
| "get_detail h (JString s) = Inr None"
| "get_detail h (JArray xs) = Inr None"

text \<open>Truthiness of a JSON value, as the operator \<^verbatim>\<open>||\<close> tests it.\<close>

fun ToBoolean :: "json \<Rightarrow> bool" where
  "ToBoolean JNull = False"
| "ToBoolean (JBool b) = b"
| "ToBoolean (JNumber NaN) = False"
| "ToBoolean (JNumber (Finite r)) = (r \<noteq> 0)"
| "ToBoolean (JNumber n) = True"
| "ToBoolean (JString s) = (s \<noteq> [])"
| "ToBoolean (JArray xs) = True"
| "ToBoolean (JObject members) = True"

text \<open>
  The conversion to a string that \<^verbatim>\<open>new Error(message)\<close> applies to its argument.
  A parsed object has the inherited \<^verbatim>\<open>toString\<close> unless a member of its own hides
  it; a member is never a function, so the conversion then finds no primitive value and
  throws a \<^verbatim>\<open>TypeError\<close>. An array joins the texts of its elements with commas, from
  left to right, \<^verbatim>\<open>null\<close> elements giving the empty string; the first element whose
  conversion throws ends the join.
\<close>

fun ToString :: "host \<Rightarrow> json \<Rightarrow> thrown + string"
  and join_elements :: "host \<Rightarrow> json list \<Rightarrow> thrown + string" where
  "ToString h JNull = Inr ''null''"
| "ToString h (JBool b) = Inr (if b then ''true'' else ''false'')"
| "ToString h (JNumber n) = Inr (number_to_string h n)"
| "ToString h (JString s) = Inr s"
| "ToString h (JArray xs) = join_elements h xs"
| "ToString h (JObject members) =
     (if member_named ''toString'' members = None then Inr ''[object Object]''
      else Inl (Error (to_primitive_message h)))"
| "join_elements h [] = Inr []"
| "join_elements h (x # xs) =
     (case (if x = JNull then Inr [] else ToString h x) of
        Inl e \<Rightarrow> Inl e
      | Inr first \<Rightarrow>
          (if xs = [] then Inr first
           else (case join_elements h xs of
                   Inl e \<Rightarrow> Inl e
                 | Inr others \<Rightarrow> Inr (first @ '','' @ others))))"

text \<open>\<^verbatim>\<open>err.detail || "Failed to fetch sentiment"\<close>, line 58.\<close>

definition detail_or_default :: "json option \<Rightarrow> json" where
  "detail_or_default detail =
     (case detail of
        None \<Rightarrow> JString ''Failed to fetch sentiment''
      | Some v \<Rightarrow> if ToBoolean v then v else JString ''Failed to fetch sentiment'')"

subsection \<open>The component state and the network\<close>

text \<open>
  The five state variables of lines 32 to 36, with their initial values. A setter call
  updates the field it belongs to.
\<close>

record home_state =
  url :: string
  maxComments :: number
  data :: "PostData option"
  loading :: bool
  error :: "string option"

definition initial_state :: home_state where
  "initial_state =
     \<lparr>url = [], maxComments = Finite 50, data = None, loading = False, error = None\<rparr>"

text \<open>
  The request of lines 51 to 55 is a \<^verbatim>\<open>GET\<close> of an address. The address is the
  template literal of lines 52 to 54, which encodes the post reference first and prints the
  comment limit after it; it is not built when the encoding throws.
\<close>

record request =
  address :: string

definition request_address :: "host \<Rightarrow> string \<Rightarrow> number \<Rightarrow> thrown + string" where
  "request_address h u n =
     (case encodeURIComponent h u of
        Inl e \<Rightarrow> Inl e
      | Inr text \<Rightarrow>
          Inr (''http://localhost:8000/analyze_post?url='' @ text @
               ''&max_comments='' @ number_to_string h n))"

text \<open>
  What the awaited \<^verbatim>\<open>fetch\<close> hands back: it rejects with a thrown value, or it
  resolves with a response. \<^verbatim>\<open>res.ok\<close> tells the two kinds of response apart, and
  \<^verbatim>\<open>res.json()\<close> either rejects or gives the parsed body, which line 60 declares
  to be a \<^verbatim>\<open>PostData\<close> on the success path.
\<close>

datatype response =
    OkResponse "thrown + PostData"
  | NotOkResponse "thrown + json"

datatype fetch_result = Rejected thrown | Resolved response

subsection \<open>The routine \<^verbatim>\<open>fetchSentiment\<close>\<close>

text \<open>Lines 62 to 67, the \<^verbatim>\<open>catch\<close> clause.\<close>

definition catch_block :: "thrown \<Rightarrow> home_state \<Rightarrow> home_state" where
  "catch_block e st =
     (case e of
        Error message \<Rightarrow> st\<lparr>error := Some message\<rparr>
      | NonError (Some text) \<Rightarrow> st\<lparr>error := Some text\<rparr>
      | NonError None \<Rightarrow> st)"

text \<open>
  Lines 39 to 55, up to the point where the routine awaits the network: the new state, and
  the request when one is sent. The address is built inside the \<^verbatim>\<open>try\<close> block, so
  when its encoding throws, the \<^verbatim>\<open>catch\<close> and \<^verbatim>\<open>finally\<close> clauses run at once
  and \<^verbatim>\<open>fetch\<close> is not called.
\<close>

definition fetchSentiment_start :: "host \<Rightarrow> home_state \<Rightarrow> home_state \<times> request option" where
  "fetchSentiment_start h st =
     (let s1 = st\<lparr>loading := True\<rparr>;
          s2 = s1\<lparr>error := None\<rparr>;
          s3 = s2\<lparr>data := None\<rparr>
      in if \<not> includes_str (url st) ''reddit.com''
         then (s3\<lparr>error := Some ''Please enter a valid Reddit post URL'', loading := False\<rparr>,
               None)
         else (case request_address h (url st) (maxComments st) of
                 Inl e \<Rightarrow> ((catch_block e s3)\<lparr>loading := False\<rparr>, None)
               | Inr a \<Rightarrow> (s3, Some \<lparr>address = a\<rparr>)))"

text \<open>
  Lines 51 to 60, the \<^verbatim>\<open>try\<close> block once the network has answered: it ends with
  the parsed post, or by throwing.
\<close>

definition try_block :: "host \<Rightarrow> fetch_result \<Rightarrow> thrown + PostData" where
  "try_block h answer =
     (case answer of
        Rejected e \<Rightarrow> Inl e
      | Resolved (NotOkResponse parsed) \<Rightarrow>
          (case parsed of
             Inl e \<Rightarrow> Inl e
           | Inr err \<Rightarrow>
               (case get_detail h err of
                  Inl e \<Rightarrow> Inl e
                | Inr detail \<Rightarrow>
                    (case ToString h (detail_or_default detail) of
                       Inl e \<Rightarrow> Inl e
                     | Inr message \<Rightarrow> Inl (Error message))))
      | Resolved (OkResponse parsed) \<Rightarrow>
          (case parsed of
             Inl e \<Rightarrow> Inl e
           | Inr json \<Rightarrow> Inr json))"

text \<open>
  Lines 56 to 70: the rest of the routine, run on the state of the moment the network
  answers, with the \<^verbatim>\<open>finally\<close> clause last.
\<close>

definition fetchSentiment_finish :: "host \<Rightarrow> home_state \<Rightarrow> fetch_result \<Rightarrow> home_state" where
  "fetchSentiment_finish h st answer =
     (let s1 = (case try_block h answer of
                  Inr json \<Rightarrow> st\<lparr>data := Some json\<rparr>
                | Inl e \<Rightarrow> catch_block e st)
      in s1\<lparr>loading := False\<rparr>)"

text \<open>
  The whole routine against a network that answers every request: the final state and the
  requests that were sent.
\<close>

definition fetchSentiment ::
  "host \<Rightarrow> home_state \<Rightarrow> (request \<Rightarrow> fetch_result) \<Rightarrow> home_state \<times> request list" where
  "fetchSentiment h st network =
     (case fetchSentiment_start h st of
        (s, None) \<Rightarrow> (s, [])
      | (s, Some r) \<Rightarrow> (fetchSentiment_finish h s (network r), [r]))"

subsection \<open>The component as an event system\<close>

text \<open>
  The user edits the two inputs and submits the form; the network answers a request that is
  in flight. Line 125 disables the submit button while \<^verbatim>\<open>loading\<close> is set or the
  address is empty, and a form whose submit button is disabled is not submitted. The
  browser's own validation of the two inputs can only refuse further submissions and is
  left out.
\<close>

record system =
  view_state :: home_state
  in_flight :: "request list"

datatype event =
    ChangeUrl string
  | ChangeMaxComments number
  | Submit
  | Settle nat fetch_result

definition button_disabled :: "home_state \<Rightarrow> bool" where
  "button_disabled st = (loading st \<or> url st = [])"

fun step :: "host \<Rightarrow> system \<Rightarrow> event \<Rightarrow> system" where
  "step h s (ChangeUrl u) = s\<lparr>view_state := (view_state s)\<lparr>url := u\<rparr>\<rparr>"
| "step h s (ChangeMaxComments n) = s\<lparr>view_state := (view_state s)\<lparr>maxComments := n\<rparr>\<rparr>"
| "step h s Submit =
     (if button_disabled (view_state s) then s
      else (case fetchSentiment_start h (view_state s) of
              (v, None) \<Rightarrow> s\<lparr>view_state := v\<rparr>
            | (v, Some r) \<Rightarrow> s\<lparr>view_state := v, in_flight := in_flight s @ [r]\<rparr>))"
| "step h s (Settle i answer) =
     (if i < length (in_flight s)
      then s\<lparr>view_state := fetchSentiment_finish h (view_state s) answer,
             in_flight := take i (in_flight s) @ drop (Suc i) (in_flight s)\<rparr>
      else s)"

definition initial_system :: system where
  "initial_system = \<lparr>view_state = initial_state, in_flight = []\<rparr>"

definition run :: "host \<Rightarrow> event list \<Rightarrow> system" where
  "run h events = foldl (step h) initial_system events"

text \<open>
  The invariant of the event system: while \<^verbatim>\<open>loading\<close> is set, no result and no
  error is stored and one request is in flight; otherwise none is in flight and a result and
  an error are never stored together.
\<close>

definition single_flight_invariant :: "system \<Rightarrow> bool" where
  "single_flight_invariant s =
     (if loading (view_state s)
      then data (view_state s) = None \<and> error (view_state s) = None \<and>
           length (in_flight s) = 1
      else in_flight s = [] \<and>
           (data (view_state s) = None \<or> error (view_state s) = None))"

section \<open>Verified properties\<close>

subsection \<open>Auxiliary facts about the string searches\<close>

lemma starts_with_prefix: "starts_with s n \<longleftrightarrow> prefix n s"
  by (induction s n rule: starts_with.induct) auto

lemma includes_str_sublist: "includes_str s n \<longleftrightarrow> sublist n s"
  by (induction s) (auto simp: starts_with_prefix sublist_Cons_right)

lemma of_char_Canonicalize:
  "(of_char (Canonicalize c) :: nat) =
     (if 97 \<le> (of_char c :: nat) \<and> (of_char c :: nat) \<le> 122 then of_char c - 32 else of_char c)"
proof -
  have "(of_char c :: nat) - 32 < 256"
    by (rule less_imp_diff_less) (rule nat_of_char_less_256)
  then have "((of_char c :: nat) - 32) mod 256 = of_char c - 32"
    by (rule mod_less)
  then show ?thesis
    by (simp add: Canonicalize_def Let_def)
qed

lemma of_char_spec_lower:
  "(of_char (spec_lower c) :: nat) =
     (if 65 \<le> (of_char c :: nat) \<and> (of_char c :: nat) \<le> 90 then of_char c + 32 else of_char c)"
  by (simp add: spec_lower_def Let_def)

lemma case_fold_arith:
  fixes n m :: nat
  shows "((if 97 \<le> n \<and> n \<le> 122 then n - 32 else n) = (if 97 \<le> m \<and> m \<le> 122 then m - 32 else m))
     \<longleftrightarrow> ((if 65 \<le> n \<and> n \<le> 90 then n + 32 else n) = (if 65 \<le> m \<and> m \<le> 90 then m + 32 else m))"
  by (auto split: if_splits)

lemma Canonicalize_eq_iff: "Canonicalize p = Canonicalize c \<longleftrightarrow> spec_lower p = spec_lower c"
proof -
  have "Canonicalize p = Canonicalize c
      \<longleftrightarrow> (of_char (Canonicalize p) :: nat) = of_char (Canonicalize c)"
    by simp
  also have "\<dots> \<longleftrightarrow> (of_char (spec_lower p) :: nat) = of_char (spec_lower c)"
    unfolding of_char_Canonicalize of_char_spec_lower by (rule case_fold_arith)
  also have "\<dots> \<longleftrightarrow> spec_lower p = spec_lower c"
    by simp
  finally show ?thesis .
qed

lemma match_literal_prefix:
  "match_literal p s \<longleftrightarrow> prefix (map spec_lower p) (map spec_lower s)"
  by (induction p s rule: match_literal.induct) (auto simp: Canonicalize_eq_iff)

lemma match_here_iff:
  "match_here alts s \<longleftrightarrow> (\<exists>a\<in>set alts. prefix (map spec_lower a) (map spec_lower s))"
  by (induction alts) (auto simp: match_literal_prefix)

lemma regex_test_iff:
  "regex_test alts s \<longleftrightarrow> (\<exists>a\<in>set alts. sublist (map spec_lower a) (map spec_lower s))"
  by (induction s) (auto simp: match_here_iff sublist_Cons_right)

lemma mod_bot_iff:
  "regex_test [''mod'', ''bot''] s \<longleftrightarrow> spec_contains_ci s ''mod'' \<or> spec_contains_ci s ''bot''"
  by (simp add: regex_test_iff spec_contains_ci_def spec_lower_def Let_def)

lemma render_comment_None: "render_comment c = None \<longleftrightarrow> spec_dropped c"
  by (auto simp: render_comment_def spec_dropped_def mod_bot_iff)

lemma filter_comments_filter:
  "filter_comments cs = filter (\<lambda>c. render_comment c \<noteq> None) cs"
  by (induction cs) (auto simp: filter_comments_def render_top_comments_def render_comment_def)

lemma lit_0_1_nearest:
  "lit_0_1 = Finite (3602879701896397 / 2 ^ 55)"
  "\<bar>3602879701896397 / 2 ^ 55 - 1 / 10\<bar> < (1 / 2 ^ 57 :: real)"
  by (simp_all add: lit_0_1_def)

lemma sentimentClass_cases:
  "sentimentClass s =
     (if num_greater s lit_0_1 then Positive
      else if num_less s (num_neg lit_0_1) then Negative else Neutral)"
  by (simp add: sentimentClass_def Positive_def Negative_def Neutral_def)

lemma buckets_distinct: "Positive \<noteq> Negative" "Positive \<noteq> Neutral" "Negative \<noteq> Neutral"
  by (simp_all add: Positive_def Negative_def Neutral_def)

subsection \<open>Auxiliary facts about the routine and the event system\<close>

lemma fetchSentiment_finish_cases:
  "fetchSentiment_finish h st answer = st\<lparr>loading := False\<rparr> \<or>
   (\<exists>m. fetchSentiment_finish h st answer = st\<lparr>error := Some m, loading := False\<rparr>) \<or>
   (\<exists>p. fetchSentiment_finish h st answer = st\<lparr>data := Some p, loading := False\<rparr>)"
  by (auto simp: fetchSentiment_finish_def try_block_def catch_block_def Let_def
      split: fetch_result.splits response.splits sum.splits thrown.splits option.splits)

lemma request_address_cases:
  "request_address h u n =
     (if lone_surrogate u then Inl (Error (uri_error_message h))
      else Inr (''http://localhost:8000/analyze_post?url='' @ escape_bytes u @
                ''&max_comments='' @ number_to_string h n))"
  by (simp add: request_address_def encodeURIComponent_def)

lemma fetchSentiment_start_rejects:
  "\<not> includes_str (url st) ''reddit.com'' \<Longrightarrow>
     fetchSentiment_start h st =
       (st\<lparr>loading := False, error := Some ''Please enter a valid Reddit post URL'',
            data := None\<rparr>, None)"
  by (simp add: fetchSentiment_start_def)

lemma fetchSentiment_start_malformed:
  "includes_str (url st) ''reddit.com'' \<Longrightarrow> lone_surrogate (url st) \<Longrightarrow>
     fetchSentiment_start h st =
       (st\<lparr>loading := False, error := Some (uri_error_message h), data := None\<rparr>, None)"
  by (simp add: fetchSentiment_start_def request_address_cases catch_block_def)

lemma fetchSentiment_start_accepts:
  "includes_str (url st) ''reddit.com'' \<Longrightarrow> \<not> lone_surrogate (url st) \<Longrightarrow>
     fetchSentiment_start h st =
       (st\<lparr>loading := True, error := None, data := None\<rparr>,
        Some \<lparr>address = ''http://localhost:8000/analyze_post?url='' @ escape_bytes (url st) @
                          ''&max_comments='' @ number_to_string h (maxComments st)\<rparr>)"
  by (simp add: fetchSentiment_start_def request_address_cases)

lemma invariant_step:
  assumes "single_flight_invariant s"
  shows "single_flight_invariant (step h s e)"
proof (cases e)
  case (ChangeUrl u)
  with assms show ?thesis by (simp add: single_flight_invariant_def)
next
  case (ChangeMaxComments n)
  with assms show ?thesis by (simp add: single_flight_invariant_def)
next
  case Submit
  show ?thesis
  proof (cases "button_disabled (view_state s)")
    case True
    with assms Submit show ?thesis by simp
  next
    case False
    with assms have idle: "\<not> loading (view_state s)" "in_flight s = []"
      by (auto simp: button_disabled_def single_flight_invariant_def split: if_splits)
    show ?thesis
    proof (cases "includes_str (url (view_state s)) ''reddit.com''")
      case True
      show ?thesis
      proof (cases "lone_surrogate (url (view_state s))")
        case malformed: True
        with True False Submit idle show ?thesis
          by (simp add: fetchSentiment_start_malformed single_flight_invariant_def)
      next
        case encoded: False
        with True False Submit idle show ?thesis
          by (simp add: fetchSentiment_start_accepts single_flight_invariant_def)
      qed
    next
      case refused: False
      with False Submit idle show ?thesis
        by (simp add: fetchSentiment_start_rejects single_flight_invariant_def)
    qed
  qed
next
  case (Settle i answer)
  show ?thesis
  proof (cases "i < length (in_flight s)")
    case False
    with assms Settle show ?thesis by simp
  next
    case True
    with assms have busy: "loading (view_state s)"
      by (auto simp: single_flight_invariant_def split: if_splits)
    with assms have clean: "data (view_state s) = None" "error (view_state s) = None"
      and one: "length (in_flight s) = 1"
      by (simp_all add: single_flight_invariant_def)
    from True one have "i = 0" by simp
    with one have none_left: "take i (in_flight s) @ drop (Suc i) (in_flight s) = []"
      by (cases "in_flight s") simp_all
    from fetchSentiment_finish_cases [of h "view_state s" answer] clean True Settle none_left
    show ?thesis
      by (auto simp: single_flight_invariant_def)
  qed
qed

lemma run_snoc: "run h (es @ [e]) = step h (run h es) e"
  by (simp add: run_def)

lemma invariant_run: "single_flight_invariant (run h es)"
proof (induction es rule: rev_induct)
  case Nil
  show ?case
    by (simp add: run_def single_flight_invariant_def initial_system_def initial_state_def)
next
  case (snoc e es)
  then show ?case by (simp add: run_snoc invariant_step)
qed

lemma reddit_com_plain:
  "includes_str ''reddit.com'' ''reddit.com''" "\<not> lone_surrogate ''reddit.com''"
  "escape_bytes ''reddit.com'' = ''reddit.com''"
  by (simp_all add: escape_bytes_def unreserved_def)

lemma run_example:
  "run example_host [ChangeUrl ''reddit.com'', Submit] =
     \<lparr>view_state = \<lparr>url = ''reddit.com'', maxComments = Finite 50, data = None,
                    loading = True, error = None\<rparr>,
      in_flight =
        [\<lparr>address = ''http://localhost:8000/analyze_post?url=reddit.com&max_comments=50''\<rparr>]\<rparr>"
  by (simp add: run_def initial_system_def initial_state_def button_disabled_def
      fetchSentiment_start_accepts reddit_com_plain example_host_def)

subsection \<open>The classifier\<close>

text \<open>
  Claim C3. For every number, the class is the Positive one exactly when the sentiment is
  greater than 0.1, the Negative one exactly when it is less than -0.1, and the Neutral one
  in every other case, where 0.1 is the value of the literal, \<open>3602879701896397 / 2 ^ 55\<close>.
  So a finite sentiment is Neutral exactly on the closed interval between the two
  thresholds, and the thresholds themselves are Neutral. NaN compares false with both
  thresholds and is Neutral; the infinities are Positive and Negative.
\<close>

theorem sentimentClass_thresholds:
  "(sentimentClass (Finite r) = Positive \<longleftrightarrow> 3602879701896397 / 2 ^ 55 < r) \<and>
   (sentimentClass (Finite r) = Negative \<longleftrightarrow> r < - (3602879701896397 / 2 ^ 55)) \<and>
   (sentimentClass (Finite r) = Neutral \<longleftrightarrow>
      - (3602879701896397 / 2 ^ 55) \<le> r \<and> r \<le> 3602879701896397 / 2 ^ 55) \<and>
   sentimentClass (Finite (3602879701896397 / 2 ^ 55)) = Neutral \<and>
   sentimentClass (Finite (- (3602879701896397 / 2 ^ 55))) = Neutral \<and>
   sentimentClass NaN = Neutral \<and>
   sentimentClass PosInfinity = Positive \<and>
   sentimentClass NegInfinity = Negative \<and>
   sentimentClass (Finite 0.15) = Positive \<and>
   sentimentClass (Finite (- 0.2)) = Negative \<and>
   sentimentClass (Finite 0.05) = Neutral"
proof -
  have finite: "sentimentClass (Finite x) =
      (if 3602879701896397 / 2 ^ 55 < x then Positive
       else if x < - (3602879701896397 / 2 ^ 55) then Negative else Neutral)" for x
    by (simp add: sentimentClass_cases num_greater_def lit_0_1_def)
  have pos: "sentimentClass (Finite r) = Positive \<longleftrightarrow> 3602879701896397 / 2 ^ 55 < r"
    using buckets_distinct by (auto simp: finite)
  have neg: "sentimentClass (Finite r) = Negative \<longleftrightarrow> r < - (3602879701896397 / 2 ^ 55)"
    using buckets_distinct by (auto simp: finite)
  have neu: "sentimentClass (Finite r) = Neutral \<longleftrightarrow>
      - (3602879701896397 / 2 ^ 55) \<le> r \<and> r \<le> 3602879701896397 / 2 ^ 55"
    using buckets_distinct by (auto simp: finite)
  have upper: "sentimentClass (Finite (3602879701896397 / 2 ^ 55)) = Neutral"
    by (simp add: finite)
  have lower: "sentimentClass (Finite (- (3602879701896397 / 2 ^ 55))) = Neutral"
    by (simp add: finite)
  have nan: "sentimentClass NaN = Neutral"
    by (simp add: sentimentClass_cases num_greater_def lit_0_1_def)
  have top: "sentimentClass PosInfinity = Positive"
    by (simp add: sentimentClass_cases num_greater_def lit_0_1_def)
  have bottom: "sentimentClass NegInfinity = Negative"
    by (simp add: sentimentClass_cases num_greater_def lit_0_1_def)
  have e1: "sentimentClass (Finite 0.15) = Positive"
    by (simp add: finite)
  have e2: "sentimentClass (Finite (- 0.2)) = Negative"
    by (simp add: finite)
  have e3: "sentimentClass (Finite 0.05) = Neutral"
    by (simp add: finite)
  from pos neg neu upper lower nan top bottom e1 e2 e3 show ?thesis by blast
qed

text \<open>
  Claim C10. The classifier has no precondition: every number, also one outside the interval
  from -1 to 1, gets exactly one of the three classes, which are pairwise different; a value
  greater than 1 gets the Positive class and a value less than -1 the Negative class.
\<close>

theorem sentimentClass_total:
  "sentimentClass s \<in> {Positive, Negative, Neutral} \<and>
   distinct [Positive, Negative, Neutral] \<and>
   (num_greater s (Finite 1) \<longrightarrow> sentimentClass s = Positive) \<and>
   (num_less s (Finite (- 1)) \<longrightarrow> sentimentClass s = Negative)"
proof -
  have range: "sentimentClass s \<in> {Positive, Negative, Neutral}"
    by (simp add: sentimentClass_cases)
  have apart: "distinct [Positive, Negative, Neutral]"
    using buckets_distinct by simp
  have above: "num_greater s (Finite 1) \<longrightarrow> sentimentClass s = Positive"
    by (cases s) (simp_all add: sentimentClass_cases num_greater_def lit_0_1_def)
  have below: "num_less s (Finite (- 1)) \<longrightarrow> sentimentClass s = Negative"
    by (cases s) (simp_all add: sentimentClass_cases num_greater_def lit_0_1_def)
  from range apart above below show ?thesis by blast
qed

theorem sentimentClass_total_witness:
  "num_greater (Finite 2) (Finite 1) \<and> sentimentClass (Finite 2) = Positive \<and>
   num_less (Finite (- 2)) (Finite (- 1)) \<and> sentimentClass (Finite (- 2)) = Negative"
  using sentimentClass_total [of "Finite 2"] sentimentClass_total [of "Finite (- 2)"]
  by (simp add: num_greater_def)

subsection \<open>The comment filter\<close>

text \<open>
  Claim C4. A comment is dropped from the rendered list if and only if its author contains
  the word mod or the word bot without regard to case, or its body is exactly \<^verbatim>\<open>[deleted]\<close> or
  exactly \<^verbatim>\<open>[removed]\<close>; the filter keeps all the other comments.
\<close>

theorem filter_comments_drops_noise:
  "(render_comment c = None \<longleftrightarrow> spec_dropped c) \<and>
   filter_comments cs = filter (\<lambda>c. \<not> spec_dropped c) cs"
  by (simp add: render_comment_None filter_comments_filter)

text \<open>
  Claim C5. The filtered sequence is a subsequence of the input: comments are only removed,
  and the retained ones stay in the order of \<^verbatim>\<open>top_comments\<close>.
\<close>

theorem filter_comments_subseq:
  "subseq (filter_comments cs) cs"
  by (simp add: filter_comments_filter)

text \<open>
  Claim C9. Filtering is idempotent: filtering a filtered sequence gives it back unchanged.
\<close>

theorem filter_comments_idempotent:
  "filter_comments (filter_comments cs) = filter_comments cs"
  by (simp add: filter_comments_filter)

subsection \<open>Validation of the post reference\<close>

text \<open>
  Claim C1, as amended. The search of line 43 succeeds exactly on the strings that contain
  \<^verbatim>\<open>reddit.com\<close> (\<open>sublist xs ys\<close> says that \<open>ys\<close> is \<open>ps @ xs @ ss\<close> for
  some \<open>ps\<close> and \<open>ss\<close>). For every address that does not contain it, the routine ends
  with the error message \<^verbatim>\<open>Please enter a valid Reddit post URL\<close>, no result,
  \<^verbatim>\<open>loading\<close> cleared, and no request sent. An address that contains it passes the
  check: the routine sends one request, to the address built from the reference and the
  limit, unless the reference holds a surrogate without its partner, in which case encoding
  it throws, the message of that error is stored and no request is sent.
\<close>

theorem validation_gate:
  "(includes_str s ''reddit.com'' \<longleftrightarrow> sublist ''reddit.com'' s) \<and>
   (\<not> sublist ''reddit.com'' (url st) \<longrightarrow>
      fetchSentiment h st network =
        (st\<lparr>loading := False, error := Some ''Please enter a valid Reddit post URL'',
             data := None\<rparr>, [])) \<and>
   (sublist ''reddit.com'' (url st) \<and> \<not> lone_surrogate (url st) \<longrightarrow>
      snd (fetchSentiment h st network) =
        [\<lparr>address = ''http://localhost:8000/analyze_post?url='' @ escape_bytes (url st) @
                     ''&max_comments='' @ number_to_string h (maxComments st)\<rparr>]) \<and>
   (sublist ''reddit.com'' (url st) \<and> lone_surrogate (url st) \<longrightarrow>
      fetchSentiment h st network =
        (st\<lparr>loading := False, error := Some (uri_error_message h), data := None\<rparr>, []))"
proof -
  have scan: "includes_str s ''reddit.com'' \<longleftrightarrow> sublist ''reddit.com'' s"
    by (rule includes_str_sublist)
  have refuse: "\<not> sublist ''reddit.com'' (url st) \<longrightarrow>
      fetchSentiment h st network =
        (st\<lparr>loading := False, error := Some ''Please enter a valid Reddit post URL'',
             data := None\<rparr>, [])"
    by (simp add: fetchSentiment_def fetchSentiment_start_rejects
        includes_str_sublist [symmetric])
  have send: "sublist ''reddit.com'' (url st) \<and> \<not> lone_surrogate (url st) \<longrightarrow>
      snd (fetchSentiment h st network) =
        [\<lparr>address = ''http://localhost:8000/analyze_post?url='' @ escape_bytes (url st) @
                     ''&max_comments='' @ number_to_string h (maxComments st)\<rparr>]"
    by (simp add: fetchSentiment_def fetchSentiment_start_accepts
        includes_str_sublist [symmetric])
  have malformed: "sublist ''reddit.com'' (url st) \<and> lone_surrogate (url st) \<longrightarrow>
      fetchSentiment h st network =
        (st\<lparr>loading := False, error := Some (uri_error_message h), data := None\<rparr>, [])"
    by (simp add: fetchSentiment_def fetchSentiment_start_malformed
        includes_str_sublist [symmetric])
  from scan refuse send malformed show ?thesis by blast
qed

text \<open>
  The address \<^verbatim>\<open>example.com\<close> is refused; the address of a post is sent, encoded; and
  \<^verbatim>\<open>reddit.com\<close> followed by the lone surrogate \<open>U+D800\<close> passes the check and fails
  in the encoding.
\<close>

theorem validation_gate_witness:
  "\<not> sublist ''reddit.com'' ''example.com'' \<and>
   fetchSentiment example_host (initial_state\<lparr>url := ''example.com''\<rparr>)
       (\<lambda>r. Rejected (Error ''Failed to fetch''))
     = (\<lparr>url = ''example.com'', maxComments = Finite 50, data = None, loading = False,
         error = Some ''Please enter a valid Reddit post URL''\<rparr>, []) \<and>
   sublist ''reddit.com'' ''https://www.reddit.com/r/wsb/comments/abc123/'' \<and>
   \<not> lone_surrogate ''https://www.reddit.com/r/wsb/comments/abc123/'' \<and>
   snd (fetchSentiment example_host
       (initial_state\<lparr>url := ''https://www.reddit.com/r/wsb/comments/abc123/''\<rparr>)
       (\<lambda>r. Rejected (Error ''Failed to fetch'')))
     = [\<lparr>address = ''http://localhost:8000/analyze_post?url='' @
          ''https%3A%2F%2Fwww.reddit.com%2Fr%2Fwsb%2Fcomments%2Fabc123%2F'' @
          ''&max_comments=50''\<rparr>] \<and>
   sublist ''reddit.com'' (''reddit.com'' @ [CHR 0xED, CHR 0xA0, CHR 0x80]) \<and>
   lone_surrogate (''reddit.com'' @ [CHR 0xED, CHR 0xA0, CHR 0x80]) \<and>
   fetchSentiment example_host
       (initial_state\<lparr>url := ''reddit.com'' @ [CHR 0xED, CHR 0xA0, CHR 0x80]\<rparr>)
       (\<lambda>r. Rejected (Error ''Failed to fetch''))
     = (\<lparr>url = ''reddit.com'' @ [CHR 0xED, CHR 0xA0, CHR 0x80], maxComments = Finite 50,
         data = None, loading = False, error = Some ''URI malformed''\<rparr>, [])"
proof -
  let ?net = "\<lambda>r :: request. Rejected (Error ''Failed to fetch'')"
  let ?post = "''https://www.reddit.com/r/wsb/comments/abc123/''"
  let ?bad = "''reddit.com'' @ [CHR 0xED, CHR 0xA0, CHR 0x80]"
  have no: "\<not> sublist ''reddit.com'' ''example.com''"
    by (simp add: includes_str_sublist [symmetric])
  have post: "sublist ''reddit.com'' ?post" "\<not> lone_surrogate ?post"
    by (simp_all add: includes_str_sublist [symmetric])
  have bad: "sublist ''reddit.com'' ?bad" "lone_surrogate ?bad"
    by (simp_all add: includes_str_sublist [symmetric])
  have encoded: "escape_bytes ?post =
      ''https%3A%2F%2Fwww.reddit.com%2Fr%2Fwsb%2Fcomments%2Fabc123%2F''"
    by (simp add: escape_bytes_def unreserved_def percent_encode_def hex_digit_def)
  from no validation_gate [of "[]" "initial_state\<lparr>url := ''example.com''\<rparr>"
      example_host ?net]
  have first: "fetchSentiment example_host (initial_state\<lparr>url := ''example.com''\<rparr>) ?net
     = (\<lparr>url = ''example.com'', maxComments = Finite 50, data = None, loading = False,
         error = Some ''Please enter a valid Reddit post URL''\<rparr>, [])"
    by (simp add: initial_state_def)
  from post validation_gate [of "[]" "initial_state\<lparr>url := ?post\<rparr>" example_host ?net]
  have second: "snd (fetchSentiment example_host (initial_state\<lparr>url := ?post\<rparr>) ?net)
     = [\<lparr>address = ''http://localhost:8000/analyze_post?url='' @
          ''https%3A%2F%2Fwww.reddit.com%2Fr%2Fwsb%2Fcomments%2Fabc123%2F'' @
          ''&max_comments=50''\<rparr>]"
    by (simp add: initial_state_def example_host_def encoded)
  from bad validation_gate [of "[]" "initial_state\<lparr>url := ?bad\<rparr>" example_host ?net]
  have third: "fetchSentiment example_host (initial_state\<lparr>url := ?bad\<rparr>) ?net
     = (\<lparr>url = ?bad, maxComments = Finite 50, data = None, loading = False,
         error = Some ''URI malformed''\<rparr>, [])"
    by (simp add: initial_state_def example_host_def)
  from no post bad first second third show ?thesis by blast
qed

text \<open>
  Claim C1 as it was stated names the message \<^verbatim>\<open>invalid post reference\<close>; for the
  address \<^verbatim>\<open>example.com\<close>, which does not contain \<^verbatim>\<open>reddit.com\<close>, the
  stored message is a different one.
\<close>

theorem validation_message_counterexample:
  "\<not> sublist ''reddit.com'' ''example.com'' \<and>
   error (fst (fetchSentiment example_host (initial_state\<lparr>url := ''example.com''\<rparr>)
       (\<lambda>r. Rejected (Error ''Failed to fetch''))))
     = Some ''Please enter a valid Reddit post URL'' \<and>
   error (fst (fetchSentiment example_host (initial_state\<lparr>url := ''example.com''\<rparr>)
       (\<lambda>r. Rejected (Error ''Failed to fetch''))))
     \<noteq> Some ''invalid post reference''"
  by (simp add: includes_str_sublist [symmetric] fetchSentiment_def fetchSentiment_start_def
      initial_state_def)

subsection \<open>The message of a failed request\<close>

text \<open>
  Claim C2, as amended. After a response whose status is not a success: when the body parses
  to an object whose \<^verbatim>\<open>detail\<close> is a non-empty string, that string becomes the error
  message; when the object has no \<^verbatim>\<open>detail\<close>, or a falsy one, the message is
  \<^verbatim>\<open>Failed to fetch sentiment\<close>; and when reading the body fails, as it does for an
  absent or unparseable body, the message is the one of that failure. In each case
  \<^verbatim>\<open>loading\<close> is cleared and nothing else changes.
\<close>

theorem error_response_message:
  "(member_named ''detail'' members = Some (JString d) \<and> d \<noteq> [] \<longrightarrow>
      fetchSentiment_finish h st (Resolved (NotOkResponse (Inr (JObject members)))) =
        st\<lparr>error := Some d, loading := False\<rparr>) \<and>
   (member_named ''detail'' members = None \<longrightarrow>
      fetchSentiment_finish h st (Resolved (NotOkResponse (Inr (JObject members)))) =
        st\<lparr>error := Some ''Failed to fetch sentiment'', loading := False\<rparr>) \<and>
   (member_named ''detail'' members = Some v \<and> \<not> ToBoolean v \<longrightarrow>
      fetchSentiment_finish h st (Resolved (NotOkResponse (Inr (JObject members)))) =
        st\<lparr>error := Some ''Failed to fetch sentiment'', loading := False\<rparr>) \<and>
   fetchSentiment_finish h st (Resolved (NotOkResponse (Inl (Error m)))) =
     st\<lparr>error := Some m, loading := False\<rparr>"
  by (simp add: fetchSentiment_finish_def try_block_def catch_block_def detail_or_default_def)

text \<open>
  The three kinds of parsed body at concrete inputs: a \<^verbatim>\<open>detail\<close> of
  \<^verbatim>\<open>post not found\<close>, an object without \<^verbatim>\<open>detail\<close>, and an empty
  \<^verbatim>\<open>detail\<close>.
\<close>

theorem error_response_message_witness:
  "member_named ''detail'' [(''detail'', JString ''post not found'')]
     = Some (JString ''post not found'') \<and>
   ''post not found'' \<noteq> [] \<and>
   fetchSentiment_finish example_host
       (initial_state\<lparr>url := ''reddit.com'', loading := True\<rparr>)
       (Resolved (NotOkResponse (Inr (JObject [(''detail'', JString ''post not found'')]))))
     = \<lparr>url = ''reddit.com'', maxComments = Finite 50, data = None, loading = False,
        error = Some ''post not found''\<rparr> \<and>
   member_named ''detail'' [(''status'', JNumber (Finite 500))] = None \<and>
   fetchSentiment_finish example_host
       (initial_state\<lparr>url := ''reddit.com'', loading := True\<rparr>)
       (Resolved (NotOkResponse (Inr (JObject [(''status'', JNumber (Finite 500))]))))
     = \<lparr>url = ''reddit.com'', maxComments = Finite 50, data = None, loading = False,
        error = Some ''Failed to fetch sentiment''\<rparr> \<and>
   member_named ''detail'' [(''detail'', JString [])] = Some (JString []) \<and>
   \<not> ToBoolean (JString []) \<and>
   fetchSentiment_finish example_host
       (initial_state\<lparr>url := ''reddit.com'', loading := True\<rparr>)
       (Resolved (NotOkResponse (Inr (JObject [(''detail'', JString [])]))))
     = \<lparr>url = ''reddit.com'', maxComments = Finite 50, data = None, loading = False,
        error = Some ''Failed to fetch sentiment''\<rparr>"
proof -
  let ?st = "initial_state\<lparr>url := ''reddit.com'', loading := True\<rparr>"
  have found: "member_named ''detail'' [(''detail'', JString ''post not found'')]
      = Some (JString ''post not found'')"
    by (simp add: member_named_def)
  have absent: "member_named ''detail'' [(''status'', JNumber (Finite 500))] = None"
    by (simp add: member_named_def)
  have empty: "member_named ''detail'' [(''detail'', JString [])] = Some (JString [])"
    by (simp add: member_named_def)
  from found absent empty
    error_response_message [of "[(''detail'', JString ''post not found'')]"
      "''post not found''" example_host ?st]
    error_response_message [of "[(''status'', JNumber (Finite 500))]" _ example_host ?st]
    error_response_message [of "[(''detail'', JString [])]" _ example_host ?st "JString []"]
  show ?thesis by (simp add: initial_state_def)
qed

text \<open>
  Claim C2 as it was stated gives the generic message for an absent or unparseable error
  body. Reading an empty body fails with a \<^verbatim>\<open>SyntaxError\<close>, and the message stored
  is the message of that error.
\<close>

theorem unparseable_body_counterexample:
  "error (fetchSentiment_finish example_host
       (initial_state\<lparr>url := ''reddit.com'', loading := True\<rparr>)
       (Resolved (NotOkResponse (Inl (Error ''Unexpected end of JSON input'')))))
     = Some ''Unexpected end of JSON input'' \<and>
   error (fetchSentiment_finish example_host
       (initial_state\<lparr>url := ''reddit.com'', loading := True\<rparr>)
       (Resolved (NotOkResponse (Inl (Error ''Unexpected end of JSON input'')))))
     \<noteq> Some ''Failed to fetch sentiment''"
  by (simp add: fetchSentiment_finish_def try_block_def catch_block_def)

subsection \<open>The loading flag\<close>

text \<open>
  Claim C6. Whatever the outcome of a submission (a refused address, an address whose
  encoding throws, a rejected \<^verbatim>\<open>fetch\<close> with any thrown value, a response of either
  kind with a body that parses or not), \<^verbatim>\<open>loading\<close> is false when the routine has
  finished; and the part of the routine that runs after the network's answer clears it from
  every state.
\<close>

theorem loading_cleared:
  "\<not> loading (fst (fetchSentiment h st network)) \<and>
   \<not> loading (fetchSentiment_finish h st answer)"
proof -
  have finish: "\<not> loading (fetchSentiment_finish h s a)" for s a
    by (simp add: fetchSentiment_finish_def Let_def)
  have whole: "\<not> loading (fst (fetchSentiment h st network))"
  proof (cases "includes_str (url st) ''reddit.com''")
    case True
    then show ?thesis
      by (cases "lone_surrogate (url st)")
        (simp_all add: fetchSentiment_def fetchSentiment_start_accepts
          fetchSentiment_start_malformed finish)
  next
    case False
    then show ?thesis
      by (simp add: fetchSentiment_def fetchSentiment_start_rejects)
  qed
  from whole finish show ?thesis by simp
qed

subsection \<open>Stale results\<close>

text \<open>
  Claim C7. From every state, the synchronous part of a submission leaves no stored result,
  and no error but one of this very submission: the validation message when the address is
  refused, the message of the encoding error when the address cannot be encoded, and none
  when the request is sent. When the routine has finished, a result and an error are not
  stored together. In the event system a result and an error are never stored together, and
  while a request is awaited neither is stored.
\<close>

theorem submit_clears_previous:
  "data (fst (fetchSentiment_start h st)) = None \<and>
   error (fst (fetchSentiment_start h st)) =
     (if \<not> includes_str (url st) ''reddit.com''
      then Some ''Please enter a valid Reddit post URL''
      else if lone_surrogate (url st) then Some (uri_error_message h) else None) \<and>
   (data (fst (fetchSentiment h st network)) = None \<or>
    error (fst (fetchSentiment h st network)) = None) \<and>
   (data (view_state (run h events)) = None \<or> error (view_state (run h events)) = None) \<and>
   (loading (view_state (run h events)) \<longrightarrow>
      data (view_state (run h events)) = None \<and> error (view_state (run h events)) = None)"
proof -
  consider (refused) "\<not> includes_str (url st) ''reddit.com''"
    | (malformed) "includes_str (url st) ''reddit.com''" "lone_surrogate (url st)"
    | (sent) "includes_str (url st) ''reddit.com''" "\<not> lone_surrogate (url st)"
    by blast
  then have start: "data (fst (fetchSentiment_start h st)) = None \<and>
     error (fst (fetchSentiment_start h st)) =
       (if \<not> includes_str (url st) ''reddit.com''
        then Some ''Please enter a valid Reddit post URL''
        else if lone_surrogate (url st) then Some (uri_error_message h) else None)"
  proof cases
    case refused
    then show ?thesis by (simp add: fetchSentiment_start_rejects)
  next
    case malformed
    then show ?thesis by (simp add: fetchSentiment_start_malformed)
  next
    case sent
    then show ?thesis by (simp add: fetchSentiment_start_accepts)
  qed
  have whole: "data (fst (fetchSentiment h st network)) = None \<or>
    error (fst (fetchSentiment h st network)) = None"
  proof (cases "includes_str (url st) ''reddit.com'' \<and> \<not> lone_surrogate (url st)")
    case True
    let ?s = "st\<lparr>loading := True, error := None, data := None\<rparr>"
    from True obtain r where
      "fst (fetchSentiment h st network) = fetchSentiment_finish h ?s (network r)"
      by (simp add: fetchSentiment_def fetchSentiment_start_accepts)
    with fetchSentiment_finish_cases [of h ?s "network r"] show ?thesis
      by auto
  next
    case False
    then show ?thesis
      by (cases "includes_str (url st) ''reddit.com''")
        (simp_all add: fetchSentiment_def fetchSentiment_start_rejects
          fetchSentiment_start_malformed)
  qed
  from invariant_run [of h events]
  have apart: "data (view_state (run h events)) = None \<or>
      error (view_state (run h events)) = None"
    and busy: "loading (view_state (run h events)) \<longrightarrow>
      data (view_state (run h events)) = None \<and> error (view_state (run h events)) = None"
    by (auto simp: single_flight_invariant_def split: if_splits)
  from start whole apart busy show ?thesis by blast
qed

text \<open>After typing an address and submitting it, the component is loading.\<close>

theorem submit_clears_previous_witness:
  "loading (view_state (run example_host [ChangeUrl ''reddit.com'', Submit])) \<and>
   data (view_state (run example_host [ChangeUrl ''reddit.com'', Submit])) = None \<and>
   error (view_state (run example_host [ChangeUrl ''reddit.com'', Submit])) = None"
proof -
  have busy: "loading (view_state (run example_host [ChangeUrl ''reddit.com'', Submit]))"
    by (simp add: run_example)
  with submit_clears_previous [of example_host initial_state
      "\<lambda>r. Rejected (Error ''Failed to fetch'')" "[ChangeUrl ''reddit.com'', Submit]"]
  show ?thesis by blast
qed

subsection \<open>One request at a time\<close>

text \<open>
  Claim C8. While \<^verbatim>\<open>loading\<close> is set the submit button is disabled and a submission
  changes nothing, so it sends no request; after every sequence of events at most one request
  is in flight, and one is in flight exactly while \<^verbatim>\<open>loading\<close> is set.
\<close>

theorem single_flight:
  "(loading (view_state s) \<longrightarrow> button_disabled (view_state s) \<and> step h s Submit = s) \<and>
   length (in_flight (run h events)) \<le> 1 \<and>
   (in_flight (run h events) \<noteq> [] \<longleftrightarrow> loading (view_state (run h events)))"
proof -
  have blocked: "loading (view_state s) \<longrightarrow>
      button_disabled (view_state s) \<and> step h s Submit = s"
    by (simp add: button_disabled_def)
  from invariant_run [of h events]
  have one: "length (in_flight (run h events)) \<le> 1"
    and busy: "in_flight (run h events) \<noteq> [] \<longleftrightarrow> loading (view_state (run h events))"
    by (auto simp: single_flight_invariant_def split: if_splits)
  from blocked one busy show ?thesis by blast
qed

text \<open>A second submission while the first request is in flight changes nothing.\<close>

theorem single_flight_witness:
  "loading (view_state (run example_host [ChangeUrl ''reddit.com'', Submit])) \<and>
   run example_host [ChangeUrl ''reddit.com'', Submit, Submit] =
   run example_host [ChangeUrl ''reddit.com'', Submit] \<and>
   in_flight (run example_host [ChangeUrl ''reddit.com'', Submit, Submit]) =
     [\<lparr>address = ''http://localhost:8000/analyze_post?url=reddit.com&max_comments=50''\<rparr>]"
proof -
  let ?s = "run example_host [ChangeUrl ''reddit.com'', Submit]"
  have busy: "loading (view_state ?s)"
    by (simp add: run_example)
  have again: "run example_host [ChangeUrl ''reddit.com'', Submit, Submit] =
      step example_host ?s Submit"
    using run_snoc [of example_host "[ChangeUrl ''reddit.com'', Submit]" Submit] by simp
  from busy single_flight [of ?s example_host] have "step example_host ?s Submit = ?s"
    by blast
  with busy again show ?thesis
    by (simp add: run_example)
qed

end
